theory Spec2Isabelle
  imports Main
begin

section \<open>Data model\<close>

text \<open>
  The repository holds two variants of the main dialog of the Contoso cafe bot:
  \<^item> variant 1, \<^verbatim>\<open>dialogs/mainDialog/index.js\<close> (\<open>onDialogContinue\<close>, \<open>beginChildDialog\<close>,
    \<open>isRequestedOperationPossible\<close>); its definitions carry the suffix \<open>1\<close>;
  \<^item> variant 2, the \<open>MainDialog\<close> class in the second half of
    \<^verbatim>\<open>dialogs/shared/stateProperties/onTurnProperty.js\<close> (\<open>mainDispatch\<close>, \<open>beginChildDialog\<close>,
    \<open>isRequestedOperationPossible\<close>, \<open>beginWhoAreYouDialog\<close>, \<open>beginWhatCanYouDoDialog\<close>); its
    definitions carry the suffix \<open>2\<close> where the name is shared.
\<close>

text \<open>\<open>DialogTurnStatus\<close> of botbuilder-dialogs.\<close>

datatype DialogTurnStatus = status_empty | status_waiting | status_complete | status_cancelled

text \<open>
  The value of an entity: a string (card input), an array (LUIS results are arrays of
  strings), or \<open>undefined\<close>.
\<close>

datatype EntityValue = EVUndefined | EVString string | EVArray "EntityValue list"

record EntityProperty =
  entityName :: string
  entityValue :: EntityValue

text \<open>
  \<open>OnTurnProperty\<close>: \<open>intent\<close> and \<open>entities\<close>. The dispatcher also reads these two
  properties off objects that did not come from the constructor (a parsed card payload, the
  payload of an abandoned dialog), so either may be absent (\<open>None\<close> is \<open>undefined\<close>).
\<close>

record OnTurnProperty =
  intent :: "string option"
  entities :: "EntityProperty list option"

text \<open>What \<open>JSON.parse\<close> returns: \<open>null\<close>, or a value with the properties the dispatcher reads.\<close>

datatype ParsedJSON = JSONNull | JSONObject (json_text: "string option") (json_onTurnProperty: OnTurnProperty)

text \<open>
  The payload of a finished dialog's result. The dispatcher reads \<open>payload.onTurnProperty\<close>;
  the specification speaks of the intent carried in the payload.
\<close>

record Payload =
  payload_intent :: "string option"
  payload_onTurnProperty :: "OnTurnProperty option"

datatype DialogResult = Result (result_reason: "string option") (result_payload: "Payload option")

text \<open>
  What \<open>dialogTurnResult\<close> may hold: \<open>undefined\<close>, the resource response that
  \<open>sendActivity\<close> resolves to (it has no \<open>status\<close>), or a dialog turn result.
\<close>

datatype TurnResult = Undefined | ResourceResponse | DialogTurnResult DialogTurnStatus "DialogResult option"

datatype Activity = Message string | SuggestedActions "string list" string

text \<open>Modelled from the spec: \<open>UserProfile\<close> is \<open>{ userName: string }\<close>; the class
  \<open>userProfileProperty\<close> is not among the sources.\<close>

record UserProfile =
  userName :: string

definition userProfileProperty :: "string \<Rightarrow> UserProfile" where
  "userProfileProperty name = \<lparr>userName = name\<rparr>"

datatype error = TypeError | Thrown string

text \<open>The calls the dispatcher makes on the dialog context, in order (a ghost log).\<close>

datatype Call = CallBegin string "Payload option" | CallContinue | CallEnd | CallCancelAll | CallQnA

text \<open>
  The dialog context \<open>dc\<close> of one conversation, with the turn context and the state
  properties the dispatcher reads and writes.
\<close>

record DC =
  stack :: "string list"
  activeDialogProperty :: "string option"
  userProfile :: "UserProfile option"
  activity_text :: string
  responded :: bool
  sent :: "Activity list"
  calls :: "Call list"

text \<open>The \<open>Name\<close> constants of the dialog classes; their modules are not among the sources.\<close>

record DialogNames =
  QnADialog_Name :: string
  ChitChatDialog_Name :: string
  HelpDialog_Name :: string
  CancelDialog_Name :: string
  WhoAreYouDialog_Name :: string
  FindCafeLocationsDialog_Name :: string
  WhatCanYouDoDialog_Name :: string
  BookTableDialog_Name :: string

text \<open>
  The collaborators of the dispatcher: the four operations of the library's dialog context
  (which run the child dialogs), the QnA dialog of variant 1, \<open>JSON.parse\<close> (\<open>None\<close> when it
  throws), the suggested queries of the closing prompt, and the built-in
  \<open>String.prototype.toUpperCase\<close>, which follows the Unicode case mapping. A string is the
  list of its code units.
\<close>

record Env =
  begin_impl :: "string \<Rightarrow> Payload option \<Rightarrow> DC \<Rightarrow> error + TurnResult \<times> DC"
  continue_impl :: "DC \<Rightarrow> error + TurnResult \<times> DC"
  end_impl :: "DC \<Rightarrow> error + TurnResult \<times> DC"
  cancelAll_impl :: "DC \<Rightarrow> error + TurnResult \<times> DC"
  qna_onTurn_impl :: "DC \<Rightarrow> error + TurnResult \<times> DC"
  JSON_parse :: "EntityValue \<Rightarrow> ParsedJSON option"
  GenSuggestedQueries :: "string list"
  toUpperCase :: "string \<Rightarrow> string"

record PermissionOutcome =
  allowed :: bool
  reason :: string

section \<open>The turn context and the dialog context\<close>

text \<open>\<open>dc.context.sendActivity\<close>: the activity goes out and the turn has responded.\<close>

definition sendActivity :: "Activity \<Rightarrow> DC \<Rightarrow> DC" where
  "sendActivity a s = s\<lparr>sent := sent s @ [a], responded := True\<rparr>"

text \<open>\<open>dc.activeDialog\<close>: the top of the stack, the last element.\<close>

definition activeDialog :: "DC \<Rightarrow> string option" where
  "activeDialog s = (if stack s = [] then None else Some (last (stack s)))"

definition logged :: "Call \<Rightarrow> DC \<Rightarrow> (error + TurnResult \<times> DC) \<Rightarrow> error + TurnResult \<times> DC" where
  "logged c s r = (case r of Inl e \<Rightarrow> Inl e | Inr (t, s') \<Rightarrow> Inr (t, s'\<lparr>calls := calls s @ [c]\<rparr>))"

definition dc_begin :: "Env \<Rightarrow> string \<Rightarrow> Payload option \<Rightarrow> DC \<Rightarrow> error + TurnResult \<times> DC" where
  "dc_begin env dialogId options s = logged (CallBegin dialogId options) s (begin_impl env dialogId options s)"

definition dc_continue :: "Env \<Rightarrow> DC \<Rightarrow> error + TurnResult \<times> DC" where
  "dc_continue env s = logged CallContinue s (continue_impl env s)"

definition dc_end :: "Env \<Rightarrow> DC \<Rightarrow> error + TurnResult \<times> DC" where
  "dc_end env s = logged CallEnd s (end_impl env s)"

definition dc_cancelAll :: "Env \<Rightarrow> DC \<Rightarrow> error + TurnResult \<times> DC" where
  "dc_cancelAll env s = logged CallCancelAll s (cancelAll_impl env s)"

definition qnaDialog_onTurn :: "Env \<Rightarrow> DC \<Rightarrow> error + TurnResult \<times> DC" where
  "qnaDialog_onTurn env s = logged CallQnA s (qna_onTurn_impl env s)"

text \<open>\<open>(r === undefined) ? new DialogTurnResult(DialogTurnStatus.empty) : r\<close>\<close>

definition orEmpty :: "TurnResult \<Rightarrow> TurnResult" where
  "orEmpty r = (if r = Undefined then DialogTurnResult status_empty None else r)"

definition apostrophe :: string where
  "apostrophe = [CHR 0x27]"

section \<open>Variant 1: \<^verbatim>\<open>dialogs/mainDialog/index.js\<close>\<close>

definition isRequestedOperationPossible1 :: "DialogNames \<Rightarrow> DC \<Rightarrow> string option \<Rightarrow> PermissionOutcome" where
  "isRequestedOperationPossible1 nm s requestedOperation =
     (let outcome = \<lparr>allowed = True, reason = ''''\<rparr>;
          activeDialog = activeDialogProperty s
      in if requestedOperation = Some ''Book_Table_Submit'' \<or> requestedOperation = Some ''Book_Table_Cancel''
         then (if activeDialog \<noteq> Some (BookTableDialog_Name nm)
               then outcome\<lparr>allowed := False,
                      reason := ''Sorry! I'm unable to process that. To start a new table reservation, try 'Book a table'' @ apostrophe\<rparr>
               else outcome)
         else if requestedOperation = Some (CancelDialog_Name nm)
         then (if activeDialog \<noteq> Some (BookTableDialog_Name nm) \<or> activeDialog \<noteq> Some (WhoAreYouDialog_Name nm)
               then outcome\<lparr>allowed := False, reason := ''Nothing to cancel.''\<rparr>
               else outcome)
         else outcome)"

definition beginChildDialog1 :: "Env \<Rightarrow> DialogNames \<Rightarrow> OnTurnProperty \<Rightarrow> DC \<Rightarrow> error + TurnResult \<times> DC" where
  "beginChildDialog1 env nm onTurnProperty s =
     (let i = intent onTurnProperty
      in if i = Some (QnADialog_Name nm) \<or> i = Some (ChitChatDialog_Name nm) \<or> i = Some (HelpDialog_Name nm)
         then qnaDialog_onTurn env s
         else if i = Some (CancelDialog_Name nm) then Inr (ResourceResponse, sendActivity (Message ''Cancel'') s)
         else if i = Some (BookTableDialog_Name nm) then Inr (ResourceResponse, sendActivity (Message ''Book Table'') s)
         else if i = Some (WhoAreYouDialog_Name nm) then Inr (ResourceResponse, sendActivity (Message ''Who are You!'') s)
         else if i = Some (FindCafeLocationsDialog_Name nm)
         then Inr (ResourceResponse, sendActivity (Message ''Find Cafe Locations!'') s)
         else Inr (Undefined, s))"

text \<open>
  The switch of \<open>onDialogContinue\<close> is written out with all four cases, after the early
  return. \<open>dc.EndAsync\<close> is not a function of the dialog context: calling it throws.
\<close>

definition onDialogContinue1 :: "Env \<Rightarrow> DialogNames \<Rightarrow> OnTurnProperty \<Rightarrow> DC \<Rightarrow> error + TurnResult \<times> DC" where
  "onDialogContinue1 env nm onTurnProperty s =
     (let reqOpStatus = isRequestedOperationPossible1 nm s (intent onTurnProperty)
      in if \<not> allowed reqOpStatus
         then Inr (DialogTurnResult status_empty None, sendActivity (Message (reason reqOpStatus)) s)
         else (case dc_continue env s of
                 Inl e \<Rightarrow> Inl e
               | Inr (dialogTurnResult, s1) \<Rightarrow>
                   (case dialogTurnResult of
                      Undefined \<Rightarrow> Inl TypeError
                    | ResourceResponse \<Rightarrow> Inr (dialogTurnResult, s1)
                    | DialogTurnResult st res \<Rightarrow>
                        if st \<noteq> status_empty then Inr (dialogTurnResult, s1)
                        else (case st of
                                status_empty \<Rightarrow>
                                  (case beginChildDialog1 env nm onTurnProperty s1 of
                                     Inl e \<Rightarrow> Inl e
                                   | Inr (r, s2) \<Rightarrow> Inr (orEmpty r, s2))
                              | status_complete \<Rightarrow> Inl TypeError
                              | status_waiting \<Rightarrow> Inr (dialogTurnResult, s1)
                              | status_cancelled \<Rightarrow>
                                  (case dc_cancelAll env (sendActivity (Message ''What else can I help you with?'') s1) of
                                     Inl e \<Rightarrow> Inl e
                                   | Inr (r, s2) \<Rightarrow> Inr (dialogTurnResult, s2))))))"

definition onDialogBegin1 :: "Env \<Rightarrow> DialogNames \<Rightarrow> OnTurnProperty \<Rightarrow> DC \<Rightarrow> error + TurnResult \<times> DC" where
  "onDialogBegin1 env nm onTurnProperty s = onDialogContinue1 env nm onTurnProperty s"

section \<open>Variant 2: the \<open>MainDialog\<close> of \<^verbatim>\<open>stateProperties/onTurnProperty.js\<close>\<close>

definition USER_NAME_ENTITY :: string where
  "USER_NAME_ENTITY = ''userName_patternAny''"

definition NONE_INTENT :: string where
  "NONE_INTENT = ''None''"

definition QUERY_PROPERTY :: string where
  "QUERY_PROPERTY = ''query''"

definition closingPrompt :: "Env \<Rightarrow> Activity" where
  "closingPrompt env = SuggestedActions (GenSuggestedQueries env) ''Is there anything else I can help you with?''"

definition isRequestedOperationPossible2 :: "DialogNames \<Rightarrow> DC \<Rightarrow> string option \<Rightarrow> PermissionOutcome" where
  "isRequestedOperationPossible2 nm s requestedOperation =
     (let outcome = \<lparr>allowed = True, reason = ''''\<rparr>;
          activeDialog = activeDialog s
      in if requestedOperation = Some (WhatCanYouDoDialog_Name nm)
         then (if activeDialog = Some (WhoAreYouDialog_Name nm)
               then outcome\<lparr>allowed := False,
                      reason := ''Sorry! I'm unable to process that. You can say 'cancel' to cancel this conversation..''\<rparr>
               else outcome)
         else if requestedOperation = Some (CancelDialog_Name nm)
         then (if activeDialog = None
               then outcome\<lparr>allowed := False, reason := ''Sure, but there is nothing to cancel..''\<rparr>
               else outcome)
         else outcome)"

text \<open>\<open>v[0]\<close>: throws on \<open>undefined\<close>; the first character of a string, the first element
  of an array, \<open>undefined\<close> when there is none.\<close>

definition index0 :: "EntityValue \<Rightarrow> error + EntityValue" where
  "index0 v = (case v of
                 EVUndefined \<Rightarrow> Inl TypeError
               | EVString str \<Rightarrow> (case str of [] \<Rightarrow> Inr EVUndefined | c # cs \<Rightarrow> Inr (EVString [c]))
               | EVArray vs \<Rightarrow> (case vs of [] \<Rightarrow> Inr EVUndefined | x # xs \<Rightarrow> Inr x))"

text \<open>\<open>userName.charAt(0).toUpperCase() + userName.slice(1)\<close>: only a string has \<open>charAt\<close>.\<close>

definition capitalize :: "Env \<Rightarrow> EntityValue \<Rightarrow> error + string" where
  "capitalize env v = (case v of
                         EVString str \<Rightarrow> Inr (toUpperCase env (take 1 str) @ drop 1 str)
                       | _ \<Rightarrow> Inl TypeError)"

definition greeting :: "string \<Rightarrow> Activity" where
  "greeting name = Message (''Hello '' @ name @ '', Nice to meet you again! I'm the Contoso Cafe Bot.'')"

definition entitiesNamed :: "string \<Rightarrow> OnTurnProperty \<Rightarrow> EntityProperty list" where
  "entitiesNamed n onTurnProperty =
     filter (\<lambda>item. entityName item = n) (case entities onTurnProperty of None \<Rightarrow> [] | Some es \<Rightarrow> es)"

definition beginWhoAreYouDialog :: "Env \<Rightarrow> DialogNames \<Rightarrow> OnTurnProperty \<Rightarrow> DC \<Rightarrow> error + TurnResult \<times> DC" where
  "beginWhoAreYouDialog env nm onTurnProperty s =
     (let userNameInOnTurnProperty = entitiesNamed USER_NAME_ENTITY onTurnProperty
      in if length userNameInOnTurnProperty \<noteq> 0
         then (case index0 (entityValue (hd userNameInOnTurnProperty)) of
                 Inl e \<Rightarrow> Inl e
               | Inr v \<Rightarrow>
                   (case capitalize env v of
                      Inl e \<Rightarrow> Inl e
                    | Inr name \<Rightarrow>
                        Inr (ResourceResponse,
                             sendActivity (greeting name) (s\<lparr>userProfile := Some (userProfileProperty name)\<rparr>))))
         else (case userProfile s of
                 None \<Rightarrow>
                   dc_begin env (WhoAreYouDialog_Name nm) None
                     (sendActivity (Message ''Hello, I'm the Contoso Cafe Bot.'') s)
               | Some p \<Rightarrow>
                   if userName p = '''' \<or> userName p = ''Human''
                   then dc_begin env (WhoAreYouDialog_Name nm) None
                          (sendActivity (Message ''Hello, I'm the Contoso Cafe Bot.'') s)
                   else Inr (ResourceResponse, sendActivity (greeting (userName p)) s)))"

text \<open>
  \<open>beginChildDialog\<close> and \<open>beginWhatCanYouDoDialog\<close> call each other: a card payload may
  name the card's own intent again. The first argument bounds the number of such hops;
  \<open>None\<close> says that the bound was reached.
\<close>

fun beginChildDialog2 :: "nat \<Rightarrow> Env \<Rightarrow> DialogNames \<Rightarrow> OnTurnProperty \<Rightarrow> Payload option \<Rightarrow> DC
                            \<Rightarrow> (error + TurnResult \<times> DC) option"
and beginWhatCanYouDoDialog :: "nat \<Rightarrow> Env \<Rightarrow> DialogNames \<Rightarrow> OnTurnProperty \<Rightarrow> DC
                            \<Rightarrow> (error + TurnResult \<times> DC) option" where
  "beginChildDialog2 0 env nm onTurnProperty childDialogPayload s = None"
| "beginChildDialog2 (Suc n) env nm onTurnProperty childDialogPayload s =
     (let i = intent onTurnProperty
      in if i = Some (QnADialog_Name nm) \<or> i = Some (ChitChatDialog_Name nm) \<or> i = Some (HelpDialog_Name nm)
         then Some (dc_begin env (QnADialog_Name nm) None s)
         else if i = Some (CancelDialog_Name nm)
         then Some (dc_begin env (CancelDialog_Name nm) childDialogPayload s)
         else if i = Some (WhoAreYouDialog_Name nm)
         then Some (beginWhoAreYouDialog env nm onTurnProperty s)
         else if i = Some (FindCafeLocationsDialog_Name nm)
         then Some (dc_begin env (FindCafeLocationsDialog_Name nm) None s)
         else if i = Some (WhatCanYouDoDialog_Name nm)
         then beginWhatCanYouDoDialog n env nm onTurnProperty s
         else if i = Some NONE_INTENT
         then Some (Inr (ResourceResponse,
                 sendActivity
                   (Message (''Follow [this link](https://www.bing.com/search?q='' @ activity_text s
                             @ '') to search the web!''))
                   (sendActivity
                      (Message ''I'm still learning.. Sorry, I do not know how to help you with that.'') s)))
         else Some (Inr (Undefined, s)))"
| "beginWhatCanYouDoDialog n env nm onTurnProperty s =
     (let queryProperty = entitiesNamed QUERY_PROPERTY onTurnProperty
      in if length queryProperty \<noteq> 0
         then (case JSON_parse env (entityValue (hd queryProperty)) of
                 None \<Rightarrow>
                   Some (Inr (ResourceResponse,
                     sendActivity
                       (Message (''Try and choose a query from the card before you click the 'Let's talk!' button.''))
                       s))
               | Some parsedJSON \<Rightarrow>
                   (case parsedJSON of
                      JSONNull \<Rightarrow> Some (Inl TypeError)
                    | JSONObject txt parsedOnTurnProperty \<Rightarrow>
                        beginChildDialog2 n env nm parsedOnTurnProperty None
                          (case txt of
                             None \<Rightarrow> s
                           | Some t \<Rightarrow>
                               sendActivity (Message (''You said: '' @ apostrophe @ t @ apostrophe))
                                 (s\<lparr>activity_text := t\<rparr>))))
         else Some (dc_begin env (WhatCanYouDoDialog_Name nm) None s))"

text \<open>
  The switch of \<open>mainDispatch\<close> on the status of the result of \<open>dc.continue()\<close> or of the
  first \<open>beginChildDialog\<close>. The \<open>break\<close> of the two reason cases leaves the inner switch
  only, so a completed result with a reason falls through to the \<open>waiting\<close> case, which
  does nothing. An abandoned dialog's payload is read for its \<open>onTurnProperty\<close>, whose
  \<open>intent\<close> is read next: both reads throw on \<open>undefined\<close>.
\<close>

definition examineResult :: "nat \<Rightarrow> Env \<Rightarrow> DialogNames \<Rightarrow> OnTurnProperty \<Rightarrow> TurnResult \<Rightarrow> DC
                               \<Rightarrow> (error + TurnResult \<times> DC) option" where
  "examineResult fuel env nm onTurnProperty dialogTurnResult s =
     (case dialogTurnResult of
        Undefined \<Rightarrow> Some (dc_end env s)
      | ResourceResponse \<Rightarrow> Some (Inr (dialogTurnResult, s))
      | DialogTurnResult st res \<Rightarrow>
          (case st of
             status_complete \<Rightarrow>
               (case res of
                  Some r \<Rightarrow>
                    if result_reason r = Some ''Interruption''
                    then (case beginChildDialog2 fuel env nm onTurnProperty (result_payload r) s of
                            None \<Rightarrow> None
                          | Some (Inl e) \<Rightarrow> Some (Inl e)
                          | Some (Inr (r2, s2)) \<Rightarrow> Some (Inr (orEmpty r2, s2)))
                    else if result_reason r = Some ''Abandon''
                    then (case result_payload r of
                            None \<Rightarrow> Some (Inl TypeError)
                          | Some p \<Rightarrow>
                              (case payload_onTurnProperty p of
                                 None \<Rightarrow> Some (Inl TypeError)
                               | Some oldOnTurnProperty \<Rightarrow>
                                   (case beginChildDialog2 fuel env nm oldOnTurnProperty None s of
                                      None \<Rightarrow> None
                                    | Some (Inl e) \<Rightarrow> Some (Inl e)
                                    | Some (Inr (r2, s2)) \<Rightarrow> Some (Inr (orEmpty r2, s2)))))
                    else Some (Inr (dialogTurnResult, s))
                | None \<Rightarrow> Some (Inr (dialogTurnResult, sendActivity (closingPrompt env) s)))
           | status_waiting \<Rightarrow> Some (Inr (dialogTurnResult, s))
           | status_cancelled \<Rightarrow>
               (case dc_cancelAll env (sendActivity (closingPrompt env) s) of
                  Inl e \<Rightarrow> Some (Inl e)
                | Inr (r2, s2) \<Rightarrow> Some (Inr (dialogTurnResult, s2)))
           | status_empty \<Rightarrow> Some (Inr (dialogTurnResult, s))))"

definition mainDispatch :: "nat \<Rightarrow> Env \<Rightarrow> DialogNames \<Rightarrow> OnTurnProperty \<Rightarrow> DC
                              \<Rightarrow> (error + TurnResult \<times> DC) option" where
  "mainDispatch fuel env nm onTurnProperty s =
     (let reqOpStatus = isRequestedOperationPossible2 nm s (intent onTurnProperty)
      in if \<not> allowed reqOpStatus
         then Some (dc_end env (sendActivity (Message (reason reqOpStatus)) s))
         else (case dc_continue env s of
                 Inl e \<Rightarrow> Some (Inl e)
               | Inr (r0, s0) \<Rightarrow>
                   if \<not> responded s0
                   then (case beginChildDialog2 fuel env nm onTurnProperty None s0 of
                           None \<Rightarrow> None
                         | Some (Inl e) \<Rightarrow> Some (Inl e)
                         | Some (Inr (r1, s1)) \<Rightarrow> examineResult fuel env nm onTurnProperty r1 s1)
                   else examineResult fuel env nm onTurnProperty r0 s0))"

section \<open>A reference dialog context and concrete inputs\<close>

text \<open>
  The dialog context as the library documents it, over child dialogs given by what their
  \<open>dialogBegin\<close>, \<open>dialogContinue\<close> and \<open>dialogResume\<close> do: \<open>begin\<close> pushes the dialog and
  runs it; \<open>continue\<close> runs the active dialog, and is \<open>empty\<close> when there is none; \<open>end\<close>
  pops the active dialog and resumes its parent, or completes when there is none;
  \<open>cancelAll\<close> empties the stack. It serves the concrete runs below, whose texts are
  ASCII: there upper-casing turns the letters a to z into A to Z and keeps every other
  character.
\<close>

definition asciiUpperCase :: "string \<Rightarrow> string" where
  "asciiUpperCase str =
     map (\<lambda>c. case map_of (zip ''abcdefghijklmnopqrstuvwxyz'' ''ABCDEFGHIJKLMNOPQRSTUVWXYZ'') c of
                 None \<Rightarrow> c | Some u \<Rightarrow> u) str"

record ChildDialogs =
  dialogBegin :: "string \<Rightarrow> Payload option \<Rightarrow> DC \<Rightarrow> TurnResult \<times> DC"
  dialogContinue :: "string \<Rightarrow> DC \<Rightarrow> TurnResult \<times> DC"
  dialogResume :: "string \<Rightarrow> DC \<Rightarrow> TurnResult \<times> DC"

definition dialogContext :: "ChildDialogs \<Rightarrow> (EntityValue \<Rightarrow> ParsedJSON option) \<Rightarrow> Env" where
  "dialogContext ch parse =
     \<lparr>begin_impl = (\<lambda>dialogId options s. Inr (dialogBegin ch dialogId options (s\<lparr>stack := stack s @ [dialogId]\<rparr>))),
      continue_impl = (\<lambda>s. case activeDialog s of
                               None \<Rightarrow> Inr (DialogTurnResult status_empty None, s)
                             | Some d \<Rightarrow> Inr (dialogContinue ch d s)),
      end_impl = (\<lambda>s. case activeDialog (s\<lparr>stack := butlast (stack s)\<rparr>) of
                          None \<Rightarrow> Inr (DialogTurnResult status_complete None, s\<lparr>stack := butlast (stack s)\<rparr>)
                        | Some d \<Rightarrow> Inr (dialogResume ch d (s\<lparr>stack := butlast (stack s)\<rparr>))),
      cancelAll_impl = (\<lambda>s. if stack s \<noteq> []
                              then Inr (DialogTurnResult status_cancelled None, s\<lparr>stack := []\<rparr>)
                              else Inr (DialogTurnResult status_empty None, s)),
      qna_onTurn_impl = (\<lambda>s. Inr (Undefined, sendActivity (Message ''QnA'') s)),
      JSON_parse = parse,
      GenSuggestedQueries = [''Book a table'', ''Find locations''],
      toUpperCase = asciiUpperCase\<rparr>"

text \<open>Child dialogs that answer every continued turn with one message and the result \<open>r\<close>,
  staying on the stack.\<close>

definition replying :: "TurnResult \<Rightarrow> ChildDialogs" where
  "replying r =
     \<lparr>dialogBegin = (\<lambda>d options s. (DialogTurnResult status_waiting None, sendActivity (Message ''?'') s)),
      dialogContinue = (\<lambda>d s. (r, sendActivity (Message ''...'') s)),
      dialogResume = (\<lambda>d s. (DialogTurnResult status_waiting None, s))\<rparr>"

text \<open>Child dialogs that answer a continued turn with one message, end themselves (they
  leave the stack) and return \<open>r\<close>.\<close>

definition finishing :: "TurnResult \<Rightarrow> ChildDialogs" where
  "finishing r =
     \<lparr>dialogBegin = (\<lambda>d options s. (DialogTurnResult status_waiting None, sendActivity (Message ''?'') s)),
      dialogContinue = (\<lambda>d s. (r, sendActivity (Message ''...'') (s\<lparr>stack := butlast (stack s)\<rparr>))),
      dialogResume = (\<lambda>d s. (DialogTurnResult status_waiting None, s))\<rparr>"

text \<open>Child dialogs that stay \<open>waiting\<close> on a continued turn without sending anything.\<close>

definition silent :: ChildDialogs where
  "silent =
     \<lparr>dialogBegin = (\<lambda>d options s. (DialogTurnResult status_waiting None, sendActivity (Message ''?'') s)),
      dialogContinue = (\<lambda>d s. (DialogTurnResult status_waiting None, s)),
      dialogResume = (\<lambda>d s. (DialogTurnResult status_waiting None, s))\<rparr>"


text \<open>A parser that rejects every string.\<close>

definition rejecting :: "EntityValue \<Rightarrow> ParsedJSON option" where
  "rejecting v = None"

definition contoso_names :: DialogNames where
  "contoso_names =
     \<lparr>QnADialog_Name = ''QnA'', ChitChatDialog_Name = ''ChitChat'', HelpDialog_Name = ''Help'',
      CancelDialog_Name = ''Cancel'', WhoAreYouDialog_Name = ''WhoAreYou'',
      FindCafeLocationsDialog_Name = ''FindCafeLocations'', WhatCanYouDoDialog_Name = ''WhatCanYouDo'',
      BookTableDialog_Name = ''BookTable''\<rparr>"

text \<open>The state at the start of a turn in which the dialogs \<open>ds\<close> are on the stack.\<close>

definition turnStart :: "string list \<Rightarrow> DC" where
  "turnStart ds =
     \<lparr>stack = ds, activeDialogProperty = (if ds = [] then None else Some (last ds)), userProfile = None,
      activity_text = ''hi'', responded = False, sent = [], calls = []\<rparr>"

text \<open>The next turn has a turn context of its own: nobody has responded to it yet.\<close>

definition nextTurn :: "string \<Rightarrow> DC \<Rightarrow> DC" where
  "nextTurn txt s = s\<lparr>activity_text := txt, responded := False\<rparr>"

definition turnSignal :: "string \<Rightarrow> EntityProperty list \<Rightarrow> OnTurnProperty" where
  "turnSignal i es = \<lparr>intent = Some i, entities = Some es\<rparr>"

text \<open>The result of a dialog that ends because the intent \<open>i\<close> interrupted it.\<close>

definition interruptedBy :: "string \<Rightarrow> TurnResult" where
  "interruptedBy i =
     DialogTurnResult status_complete
       (Some (Result (Some ''Interruption'') (Some \<lparr>payload_intent = Some i, payload_onTurnProperty = None\<rparr>)))"

section \<open>Permission evaluation\<close>

text \<open>
  C3. With no active sub-conversation, the cancel intent is denied with the "nothing to
  cancel" reason: in variant 2 when the stack of the dialog context is empty, in variant 1
  when the active dialog property is unset. The cancel dialog's name is taken to differ
  from the names the evaluators test before it.
\<close>

theorem cancel_denied_when_idle:
  assumes "CancelDialog_Name nm \<noteq> WhatCanYouDoDialog_Name nm"
    and "CancelDialog_Name nm \<noteq> ''Book_Table_Submit''"
    and "CancelDialog_Name nm \<noteq> ''Book_Table_Cancel''"
  shows "(stack s = [] \<longrightarrow>
            isRequestedOperationPossible2 nm s (Some (CancelDialog_Name nm))
              = \<lparr>allowed = False, reason = ''Sure, but there is nothing to cancel..''\<rparr>)
       \<and> (activeDialogProperty s = None \<longrightarrow>
            isRequestedOperationPossible1 nm s (Some (CancelDialog_Name nm))
              = \<lparr>allowed = False, reason = ''Nothing to cancel.''\<rparr>)"
  using assms
  by (simp add: isRequestedOperationPossible2_def isRequestedOperationPossible1_def activeDialog_def)

theorem cancel_denied_when_idle_witness:
  "isRequestedOperationPossible2 contoso_names (turnStart []) (Some ''Cancel'')
     = \<lparr>allowed = False, reason = ''Sure, but there is nothing to cancel..''\<rparr>
   \<and> isRequestedOperationPossible1 contoso_names (turnStart []) (Some ''Cancel'')
     = \<lparr>allowed = False, reason = ''Nothing to cancel.''\<rparr>"
  using cancel_denied_when_idle [of contoso_names "turnStart []"]
  by (simp add: contoso_names_def turnStart_def)

text \<open>
  C4. In variant 1 the test guarding the cancel intent is a disjunction of two inequalities,
  true for every value of the active dialog as the two names differ; so the cancel intent is
  denied whatever dialog is active, the booking and the identification dialog included.
\<close>

theorem cancel_always_denied_variant1:
  assumes "BookTableDialog_Name nm \<noteq> WhoAreYouDialog_Name nm"
    and "CancelDialog_Name nm \<noteq> ''Book_Table_Submit''"
    and "CancelDialog_Name nm \<noteq> ''Book_Table_Cancel''"
  shows "(activeDialogProperty s \<noteq> Some (BookTableDialog_Name nm)
            \<or> activeDialogProperty s \<noteq> Some (WhoAreYouDialog_Name nm))
       \<and> isRequestedOperationPossible1 nm s (Some (CancelDialog_Name nm))
           = \<lparr>allowed = False, reason = ''Nothing to cancel.''\<rparr>"
proof -
  have always: "activeDialogProperty s \<noteq> Some (BookTableDialog_Name nm)
                  \<or> activeDialogProperty s \<noteq> Some (WhoAreYouDialog_Name nm)"
    using assms(1) by auto
  then show ?thesis
    using assms(2,3) by (simp add: isRequestedOperationPossible1_def)
qed

theorem cancel_always_denied_variant1_witness:
  "isRequestedOperationPossible1 contoso_names (turnStart [''BookTable'']) (Some ''Cancel'')
     = \<lparr>allowed = False, reason = ''Nothing to cancel.''\<rparr>
   \<and> isRequestedOperationPossible1 contoso_names (turnStart [''WhoAreYou'']) (Some ''Cancel'')
     = \<lparr>allowed = False, reason = ''Nothing to cancel.''\<rparr>"
  using cancel_always_denied_variant1 [of contoso_names "turnStart [''BookTable'']"]
    cancel_always_denied_variant1 [of contoso_names "turnStart [''WhoAreYou'']"]
  by (simp add: contoso_names_def)

text \<open>
  C5, as the code has it. In variant 1 the card intent \<open>Book_Table_Submit\<close> is allowed while
  the booking dialog is active and denied, with the guidance to say 'Book a table', when no
  dialog is. Variant 2 has no rule for the card intents: it allows \<open>Book_Table_Submit\<close>
  whatever is active (the names it tests being different from that intent).
\<close>

theorem book_table_submit_permission:
  assumes "WhatCanYouDoDialog_Name nm \<noteq> ''Book_Table_Submit''"
    and "CancelDialog_Name nm \<noteq> ''Book_Table_Submit''"
  shows "(activeDialogProperty s = Some (BookTableDialog_Name nm) \<longrightarrow>
            isRequestedOperationPossible1 nm s (Some ''Book_Table_Submit'') = \<lparr>allowed = True, reason = ''''\<rparr>)
       \<and> (activeDialogProperty s = None \<longrightarrow>
            isRequestedOperationPossible1 nm s (Some ''Book_Table_Submit'')
              = \<lparr>allowed = False,
                 reason = ''Sorry! I'm unable to process that. To start a new table reservation, try 'Book a table'' @ apostrophe\<rparr>)
       \<and> isRequestedOperationPossible2 nm s (Some ''Book_Table_Submit'') = \<lparr>allowed = True, reason = ''''\<rparr>"
  using assms
  by (auto simp add: isRequestedOperationPossible1_def isRequestedOperationPossible2_def)

theorem book_table_submit_permission_witness:
  "isRequestedOperationPossible1 contoso_names (turnStart [''BookTable'']) (Some ''Book_Table_Submit'')
     = \<lparr>allowed = True, reason = ''''\<rparr>
   \<and> allowed (isRequestedOperationPossible1 contoso_names (turnStart []) (Some ''Book_Table_Submit'')) = False
   \<and> isRequestedOperationPossible2 contoso_names (turnStart [''BookTable'']) (Some ''Book_Table_Submit'')
     = \<lparr>allowed = True, reason = ''''\<rparr>"
  using book_table_submit_permission [of contoso_names "turnStart [''BookTable'']"]
    book_table_submit_permission [of contoso_names "turnStart []"]
  by (simp add: contoso_names_def turnStart_def)

text \<open>
  C5 as stated fails on variant 2: with no active sub-conversation, \<open>Book_Table_Submit\<close>
  is allowed.
\<close>

theorem book_table_submit_idle_counterexample:
  "stack (turnStart []) = []
   \<and> allowed (isRequestedOperationPossible2 contoso_names (turnStart []) (Some ''Book_Table_Submit'')) \<noteq> False"
  by (simp add: isRequestedOperationPossible2_def contoso_names_def turnStart_def activeDialog_def)

section \<open>The dialog context calls of the dispatcher\<close>

lemma dc_continue_returns:
  "continue_impl env s = Inr (r, s0) \<Longrightarrow> dc_continue env s = Inr (r, s0\<lparr>calls := calls s @ [CallContinue]\<rparr>)"
  by (simp add: dc_continue_def logged_def)

lemma sendActivity_fields:
  "sendActivity a s = s\<lparr>sent := sent s @ [a], responded := True\<rparr>"
  by (simp add: sendActivity_def)

section \<open>Variant 1: the early return\<close>

text \<open>
  C10. In variant 1 a continuation result whose status is not \<open>empty\<close> is returned as it
  is, in the state the continued dialog left: nothing is sent and the dialog context is
  neither ended nor cancelled (the log grows by the call of \<open>continue\<close> alone). The switch is
  entered with the status \<open>empty\<close> only, where it takes its first case; its other three
  cases never run.
\<close>

theorem early_return_variant1:
  assumes "allowed (isRequestedOperationPossible1 nm s (intent onTurnProperty))"
    and "continue_impl env s = Inr (DialogTurnResult st res, s1)"
  shows "(st \<noteq> status_empty \<longrightarrow>
            onDialogContinue1 env nm onTurnProperty s
              = Inr (DialogTurnResult st res, s1\<lparr>calls := calls s @ [CallContinue]\<rparr>))
       \<and> (st = status_empty \<longrightarrow>
            onDialogContinue1 env nm onTurnProperty s
              = (case beginChildDialog1 env nm onTurnProperty (s1\<lparr>calls := calls s @ [CallContinue]\<rparr>) of
                   Inl e \<Rightarrow> Inl e
                 | Inr (r, s2) \<Rightarrow> Inr (orEmpty r, s2)))"
  using assms dc_continue_returns [OF assms(2)]
  by (simp add: onDialogContinue1_def)

theorem early_return_variant1_witness:
  "onDialogContinue1 (dialogContext (replying (DialogTurnResult status_cancelled None)) rejecting)
     contoso_names (turnSignal ''None'' []) (turnStart [''Cancel''])
   = Inr (DialogTurnResult status_cancelled None,
          \<lparr>stack = [''Cancel''], activeDialogProperty = Some ''Cancel'', userProfile = None,
           activity_text = ''hi'', responded = True, sent = [Message ''...''], calls = [CallContinue]\<rparr>)"
proof -
  have h1: "allowed (isRequestedOperationPossible1 contoso_names (turnStart [''Cancel''])
                       (intent (turnSignal ''None'' [])))"
    by (simp add: isRequestedOperationPossible1_def contoso_names_def turnSignal_def)
  have h2: "continue_impl (dialogContext (replying (DialogTurnResult status_cancelled None)) rejecting)
              (turnStart [''Cancel''])
            = Inr (DialogTurnResult status_cancelled None, sendActivity (Message ''...'') (turnStart [''Cancel'']))"
    by (simp add: dialogContext_def replying_def activeDialog_def turnStart_def)
  show ?thesis
    using early_return_variant1 [OF h1 h2]
    by (simp add: sendActivity_def turnStart_def)
qed

section \<open>A cancelled outcome\<close>






section \<open>Denial\<close>






section \<open>Resuming a waiting sub-conversation\<close>

lemma waiting_turn:
  assumes "allowed (isRequestedOperationPossible2 nm s (intent onTurnProperty))"
    and "continue_impl env s = Inr (DialogTurnResult status_waiting res, s0)"
    and "responded s0"
  shows "mainDispatch fuel env nm onTurnProperty s
           = Some (Inr (DialogTurnResult status_waiting res, s0\<lparr>calls := calls s @ [CallContinue]\<rparr>))"
  using assms dc_continue_returns [OF assms(2)]
  by (simp add: mainDispatch_def examineResult_def)

text \<open>
  C9, as the code has it. A permitted turn is resumed by the active sub-conversation, which
  responds to it and stays \<open>waiting\<close>: the dispatcher returns that outcome in the very state
  the sub-conversation left, stack and active dialog included. Over two such turns in a row
  the dispatcher calls \<open>continue\<close> twice and nothing else: no dialog is begun.
\<close>

theorem waiting_turns_begin_nothing:
  assumes "allowed (isRequestedOperationPossible2 nm s (intent onTurnProperty1))"
    and "continue_impl env s = Inr (DialogTurnResult status_waiting res1, s1)"
    and "responded s1"
    and "allowed (isRequestedOperationPossible2 nm (nextTurn txt (s1\<lparr>calls := calls s @ [CallContinue]\<rparr>))
                    (intent onTurnProperty2))"
    and "continue_impl env (nextTurn txt (s1\<lparr>calls := calls s @ [CallContinue]\<rparr>))
           = Inr (DialogTurnResult status_waiting res2, s2)"
    and "responded s2"
  shows "mainDispatch fuel env nm onTurnProperty1 s
           = Some (Inr (DialogTurnResult status_waiting res1, s1\<lparr>calls := calls s @ [CallContinue]\<rparr>))
       \<and> mainDispatch fuel env nm onTurnProperty2 (nextTurn txt (s1\<lparr>calls := calls s @ [CallContinue]\<rparr>))
           = Some (Inr (DialogTurnResult status_waiting res2,
                        s2\<lparr>calls := calls s @ [CallContinue, CallContinue]\<rparr>))"
proof -
  have first: "mainDispatch fuel env nm onTurnProperty1 s
                 = Some (Inr (DialogTurnResult status_waiting res1, s1\<lparr>calls := calls s @ [CallContinue]\<rparr>))"
    by (rule waiting_turn [OF assms(1) assms(2) assms(3)])
  have second: "mainDispatch fuel env nm onTurnProperty2 (nextTurn txt (s1\<lparr>calls := calls s @ [CallContinue]\<rparr>))
                  = Some (Inr (DialogTurnResult status_waiting res2,
                        s2\<lparr>calls := calls (nextTurn txt (s1\<lparr>calls := calls s @ [CallContinue]\<rparr>)) @ [CallContinue]\<rparr>))"
    by (rule waiting_turn [OF assms(4) assms(5) assms(6)])
  have log: "calls (nextTurn txt (s1\<lparr>calls := calls s @ [CallContinue]\<rparr>)) @ [CallContinue]
               = calls s @ [CallContinue, CallContinue]"
    by (simp add: nextTurn_def)
  show ?thesis
    using first second by (simp add: log)
qed

theorem waiting_turns_begin_nothing_witness:
  "mainDispatch 1 (dialogContext (replying (DialogTurnResult status_waiting None)) rejecting)
     contoso_names (turnSignal ''WhoAreYou'' []) (turnStart [''WhoAreYou''])
   = Some (Inr (DialogTurnResult status_waiting None,
        \<lparr>stack = [''WhoAreYou''], activeDialogProperty = Some ''WhoAreYou'', userProfile = None,
         activity_text = ''hi'', responded = True, sent = [Message ''...''], calls = [CallContinue]\<rparr>))
   \<and> mainDispatch 1 (dialogContext (replying (DialogTurnResult status_waiting None)) rejecting)
     contoso_names (turnSignal ''WhoAreYou'' [])
       \<lparr>stack = [''WhoAreYou''], activeDialogProperty = Some ''WhoAreYou'', userProfile = None,
        activity_text = ''again'', responded = False, sent = [Message ''...''], calls = [CallContinue]\<rparr>
   = Some (Inr (DialogTurnResult status_waiting None,
        \<lparr>stack = [''WhoAreYou''], activeDialogProperty = Some ''WhoAreYou'', userProfile = None,
         activity_text = ''again'', responded = True, sent = [Message ''...'', Message ''...''],
         calls = [CallContinue, CallContinue]\<rparr>))"
proof -
  let ?env = "dialogContext (replying (DialogTurnResult status_waiting None)) rejecting"
  let ?s = "turnStart [''WhoAreYou'']"
  let ?first = "sendActivity (Message ''...'') ?s"
  let ?t = "nextTurn ''again'' (?first\<lparr>calls := calls ?s @ [CallContinue]\<rparr>)"
  let ?second = "sendActivity (Message ''...'') ?t"
  have h1: "allowed (isRequestedOperationPossible2 contoso_names ?s (intent (turnSignal ''WhoAreYou'' [])))"
    by (simp add: isRequestedOperationPossible2_def contoso_names_def turnSignal_def)
  have h2: "continue_impl ?env ?s = Inr (DialogTurnResult status_waiting None, ?first)"
    by (simp add: dialogContext_def replying_def activeDialog_def turnStart_def)
  have h3: "responded ?first"
    by (simp add: sendActivity_def)
  have h4: "allowed (isRequestedOperationPossible2 contoso_names ?t (intent (turnSignal ''WhoAreYou'' [])))"
    by (simp add: isRequestedOperationPossible2_def contoso_names_def turnSignal_def)
  have h5: "continue_impl ?env ?t = Inr (DialogTurnResult status_waiting None, ?second)"
    by (simp add: dialogContext_def replying_def activeDialog_def turnStart_def nextTurn_def sendActivity_def)
  have h6: "responded ?second"
    by (simp add: sendActivity_def)
  show ?thesis
    using waiting_turns_begin_nothing [OF h1 h2 h3 h4 h5 h6, of 1]
    by (simp add: turnStart_def nextTurn_def sendActivity_def)
qed

text \<open>
  C9 as stated fails for a sub-conversation that stays \<open>waiting\<close> without sending
  anything: the turn has not responded, so the dispatcher goes on to \<open>beginChildDialog\<close>.
  With the identification dialog active and the intent \<open>WhoAreYou\<close>, a second instance of
  that dialog is begun on top of the first; with the intent \<open>FindCafeLocations\<close>, the active
  dialog changes to the dialog begun.
\<close>

theorem silent_waiting_counterexample:
  "mainDispatch 1 (dialogContext silent rejecting) contoso_names (turnSignal ''WhoAreYou'' [])
     (turnStart [''WhoAreYou''])
   = Some (Inr (DialogTurnResult status_waiting None,
        \<lparr>stack = [''WhoAreYou'', ''WhoAreYou''], activeDialogProperty = Some ''WhoAreYou'', userProfile = None,
         activity_text = ''hi'', responded = True,
         sent = [Message ''Hello, I'm the Contoso Cafe Bot.'', Message ''?''],
         calls = [CallContinue, CallBegin ''WhoAreYou'' None]\<rparr>))
   \<and> mainDispatch 1 (dialogContext silent rejecting) contoso_names (turnSignal ''FindCafeLocations'' [])
     (turnStart [''WhoAreYou''])
   = Some (Inr (DialogTurnResult status_waiting None,
        \<lparr>stack = [''WhoAreYou'', ''FindCafeLocations''], activeDialogProperty = Some ''WhoAreYou'',
         userProfile = None, activity_text = ''hi'', responded = True, sent = [Message ''?''],
         calls = [CallContinue, CallBegin ''FindCafeLocations'' None]\<rparr>))"
  by (simp add: mainDispatch_def examineResult_def isRequestedOperationPossible2_def contoso_names_def
      turnSignal_def dc_continue_def dc_begin_def logged_def dialogContext_def silent_def
      beginWhoAreYouDialog_def entitiesNamed_def activeDialog_def turnStart_def sendActivity_def)

section \<open>Interruption\<close>

text \<open>
  C1, as the code has it. When the outcome the dispatcher examines (that of the continued
  dialog if it responded, else that of the first \<open>beginChildDialog\<close>) is \<open>complete\<close> with
  the reason \<open>Interruption\<close>, the turn's result is that of \<open>beginChildDialog\<close> on the
  current turn's \<open>onTurnProperty\<close>, whose intent selects the dialog, with the outcome's
  payload as the child dialog payload; it starts in the state the finished dialog left,
  the dispatcher clearing nothing in between; an undefined result becomes \<open>empty\<close>.
\<close>

theorem interruption_redispatch:
  assumes "allowed (isRequestedOperationPossible2 nm s (intent onTurnProperty))"
    and "continue_impl env s = Inr (r0, s0)"
    and "(if responded s0 then Some (Inr (r0, s0\<lparr>calls := calls s @ [CallContinue]\<rparr>))
          else beginChildDialog2 fuel env nm onTurnProperty None (s0\<lparr>calls := calls s @ [CallContinue]\<rparr>))
         = Some (Inr (DialogTurnResult status_complete (Some (Result (Some ''Interruption'') payload)), s1))"
  shows "mainDispatch fuel env nm onTurnProperty s
           = (case beginChildDialog2 fuel env nm onTurnProperty payload s1 of
                None \<Rightarrow> None
              | Some (Inl e) \<Rightarrow> Some (Inl e)
              | Some (Inr (r2, s2)) \<Rightarrow> Some (Inr (orEmpty r2, s2)))"
proof (cases "responded s0")
  case True
  with assms(3) have "r0 = DialogTurnResult status_complete (Some (Result (Some ''Interruption'') payload))"
    and "s1 = s0\<lparr>calls := calls s @ [CallContinue]\<rparr>"
    by simp_all
  with True assms(1) dc_continue_returns [OF assms(2)] show ?thesis
    by (simp add: mainDispatch_def examineResult_def)
next
  case False
  with assms(3) have "beginChildDialog2 fuel env nm onTurnProperty None (s0\<lparr>calls := calls s @ [CallContinue]\<rparr>)
      = Some (Inr (DialogTurnResult status_complete (Some (Result (Some ''Interruption'') payload)), s1))"
    by simp
  with False assms(1) dc_continue_returns [OF assms(2)] show ?thesis
    by (simp add: mainDispatch_def examineResult_def)
qed

theorem interruption_redispatch_witness:
  "mainDispatch 1 (dialogContext (finishing (interruptedBy ''Cancel'')) rejecting)
     contoso_names (turnSignal ''Cancel'' []) (turnStart [''WhoAreYou''])
   = Some (Inr (DialogTurnResult status_waiting None,
        \<lparr>stack = [''Cancel''], activeDialogProperty = Some ''WhoAreYou'', userProfile = None,
         activity_text = ''hi'', responded = True, sent = [Message ''...'', Message ''?''],
         calls = [CallContinue,
                  CallBegin ''Cancel'' (Some \<lparr>payload_intent = Some ''Cancel'', payload_onTurnProperty = None\<rparr>)]\<rparr>))"
proof -
  let ?env = "dialogContext (finishing (interruptedBy ''Cancel'')) rejecting"
  let ?s = "turnStart [''WhoAreYou'']"
  let ?left = "sendActivity (Message ''...'') (?s\<lparr>stack := butlast (stack ?s)\<rparr>)"
  let ?p = "Some \<lparr>payload_intent = Some ''Cancel'', payload_onTurnProperty = None\<rparr>"
  have h1: "allowed (isRequestedOperationPossible2 contoso_names ?s (intent (turnSignal ''Cancel'' [])))"
    by (simp add: isRequestedOperationPossible2_def contoso_names_def turnSignal_def activeDialog_def turnStart_def)
  have h2: "continue_impl ?env ?s = Inr (interruptedBy ''Cancel'', ?left)"
    by (simp add: dialogContext_def finishing_def activeDialog_def turnStart_def)
  have h3: "(if responded ?left then Some (Inr (interruptedBy ''Cancel'', ?left\<lparr>calls := calls ?s @ [CallContinue]\<rparr>))
             else beginChildDialog2 1 ?env contoso_names (turnSignal ''Cancel'' []) None
                    (?left\<lparr>calls := calls ?s @ [CallContinue]\<rparr>))
            = Some (Inr (DialogTurnResult status_complete (Some (Result (Some ''Interruption'') ?p)),
                         ?left\<lparr>calls := calls ?s @ [CallContinue]\<rparr>))"
    by (simp add: sendActivity_def interruptedBy_def)
  show ?thesis
    using interruption_redispatch [OF h1 h2 h3]
    by (simp add: contoso_names_def turnSignal_def dc_begin_def logged_def dialogContext_def finishing_def
        turnStart_def sendActivity_def orEmpty_def)
qed

text \<open>
  C1 as stated fails: the identification dialog ends with the reason \<open>Interruption\<close> and a
  payload carrying the intent \<open>Cancel\<close>, in a turn whose own intent is
  \<open>FindCafeLocations\<close>. The dialog begun is \<open>FindCafeLocations\<close>, the current turn's, with
  no payload; \<open>Cancel\<close> is not begun.
\<close>

theorem interruption_payload_intent_counterexample:
  "mainDispatch 1 (dialogContext (finishing (interruptedBy ''Cancel'')) rejecting)
     contoso_names (turnSignal ''FindCafeLocations'' []) (turnStart [''WhoAreYou''])
   = Some (Inr (DialogTurnResult status_waiting None,
        \<lparr>stack = [''FindCafeLocations''], activeDialogProperty = Some ''WhoAreYou'', userProfile = None,
         activity_text = ''hi'', responded = True, sent = [Message ''...'', Message ''?''],
         calls = [CallContinue, CallBegin ''FindCafeLocations'' None]\<rparr>))"
  by (simp add: mainDispatch_def examineResult_def isRequestedOperationPossible2_def contoso_names_def
      turnSignal_def dc_continue_def dc_begin_def logged_def dialogContext_def finishing_def interruptedBy_def
      activeDialog_def turnStart_def sendActivity_def orEmpty_def)

section \<open>The identification short cut\<close>

lemma find_heads_filter:
  "find P xs = Some x \<Longrightarrow> \<exists>ys. filter P xs = x # ys"
  by (induction xs) (auto split: if_splits)

lemma beginChildDialog2_WhoAreYou:
  assumes "intent onTurnProperty = Some (WhoAreYouDialog_Name nm)"
    and "WhoAreYouDialog_Name nm \<noteq> QnADialog_Name nm"
    and "WhoAreYouDialog_Name nm \<noteq> ChitChatDialog_Name nm"
    and "WhoAreYouDialog_Name nm \<noteq> HelpDialog_Name nm"
    and "WhoAreYouDialog_Name nm \<noteq> CancelDialog_Name nm"
  shows "beginChildDialog2 (Suc n) env nm onTurnProperty payload s
           = Some (beginWhoAreYouDialog env nm onTurnProperty s)"
  using assms by simp

lemma beginWhoAreYouDialog_introduced:
  assumes "entities onTurnProperty = Some es"
    and "find (\<lambda>item. entityName item = ''userName_patternAny'') es = Some e"
    and "entityValue e = EVArray (EVString name # vs)"
  shows "beginWhoAreYouDialog env nm onTurnProperty s
           = Inr (ResourceResponse,
                  sendActivity (greeting (toUpperCase env (take 1 name) @ drop 1 name))
                    (s\<lparr>userProfile := Some \<lparr>userName = toUpperCase env (take 1 name) @ drop 1 name\<rparr>\<rparr>))"
proof -
  from find_heads_filter [OF assms(2)] obtain ys
    where "filter (\<lambda>item. entityName item = ''userName_patternAny'') es = e # ys"
    by blast
  with assms(1) have "entitiesNamed USER_NAME_ENTITY onTurnProperty = e # ys"
    by (simp add: entitiesNamed_def USER_NAME_ENTITY_def)
  with assms(3) show ?thesis
    by (simp add: beginWhoAreYouDialog_def index0_def capitalize_def userProfileProperty_def)
qed

text \<open>
  C7, as the code has it. A turn with the intent of the identification dialog, among whose
  entities the first one named \<open>userName_patternAny\<close> has the value \<open>["alice"]\<close> (an array,
  as LUIS gives entity values; the code reads its element 0), and to which no continued
  dialog has responded: the user profile's name becomes \<open>Alice\<close>, the user is greeted, and
  the dispatcher begins no dialog (the log grows by the call of \<open>continue\<close> only).
  \<open>toUpperCase\<close> maps \<open>a\<close> to \<open>A\<close>, and the identification dialog's name differs from the
  names tested before it.
\<close>

theorem reintroduction_sets_name:
  assumes "intent onTurnProperty = Some (WhoAreYouDialog_Name nm)"
    and "WhoAreYouDialog_Name nm \<noteq> QnADialog_Name nm"
    and "WhoAreYouDialog_Name nm \<noteq> ChitChatDialog_Name nm"
    and "WhoAreYouDialog_Name nm \<noteq> HelpDialog_Name nm"
    and "WhoAreYouDialog_Name nm \<noteq> CancelDialog_Name nm"
    and "WhoAreYouDialog_Name nm \<noteq> WhatCanYouDoDialog_Name nm"
    and "entities onTurnProperty = Some es"
    and "find (\<lambda>item. entityName item = ''userName_patternAny'') es = Some e"
    and "entityValue e = EVArray (EVString ''alice'' # vs)"
    and "toUpperCase env ''a'' = ''A''"
    and "continue_impl env s = Inr (r0, s0)"
    and "\<not> responded s0"
  shows "mainDispatch (Suc n) env nm onTurnProperty s
           = Some (Inr (ResourceResponse,
               s0\<lparr>calls := calls s @ [CallContinue],
                  userProfile := Some \<lparr>userName = ''Alice''\<rparr>,
                  sent := sent s0 @ [Message ''Hello Alice, Nice to meet you again! I'm the Contoso Cafe Bot.''],
                  responded := True\<rparr>))"
proof -
  have permitted: "allowed (isRequestedOperationPossible2 nm s (intent onTurnProperty))"
    using assms(1,5,6) by (simp add: isRequestedOperationPossible2_def)
  have capital: "toUpperCase env (take 1 ''alice'') @ drop 1 ''alice'' = ''Alice''"
    using assms(10) by simp
  have begun: "beginChildDialog2 (Suc n) env nm onTurnProperty None (s0\<lparr>calls := calls s @ [CallContinue]\<rparr>)
                 = Some (Inr (ResourceResponse,
                      sendActivity (greeting ''Alice'')
                        (s0\<lparr>calls := calls s @ [CallContinue], userProfile := Some \<lparr>userName = ''Alice''\<rparr>\<rparr>)))"
    unfolding beginChildDialog2_WhoAreYou [OF assms(1-5)]
      beginWhoAreYouDialog_introduced [OF assms(7,8,9)] capital
    by simp
  show ?thesis
    unfolding mainDispatch_def
    using permitted assms(12) dc_continue_returns [OF assms(11)] begun
    by (simp add: examineResult_def sendActivity_def greeting_def)
qed

theorem reintroduction_sets_name_witness:
  "mainDispatch 1 (dialogContext (replying (DialogTurnResult status_waiting None)) rejecting) contoso_names
     (turnSignal ''WhoAreYou''
        [\<lparr>entityName = ''cafeLocation'', entityValue = EVArray [EVString ''seattle'']\<rparr>,
         \<lparr>entityName = ''userName_patternAny'', entityValue = EVArray [EVString ''alice'']\<rparr>,
         \<lparr>entityName = ''userName_patternAny'', entityValue = EVArray [EVString ''bob'']\<rparr>])
     (turnStart [])
   = Some (Inr (ResourceResponse,
        \<lparr>stack = [], activeDialogProperty = None, userProfile = Some \<lparr>userName = ''Alice''\<rparr>,
         activity_text = ''hi'', responded = True,
         sent = [Message ''Hello Alice, Nice to meet you again! I'm the Contoso Cafe Bot.''],
         calls = [CallContinue]\<rparr>))"
proof -
  let ?env = "dialogContext (replying (DialogTurnResult status_waiting None)) rejecting"
  let ?e = "\<lparr>entityName = ''userName_patternAny'', entityValue = EVArray [EVString ''alice'']\<rparr>"
  let ?es = "[\<lparr>entityName = ''cafeLocation'', entityValue = EVArray [EVString ''seattle'']\<rparr>, ?e,
              \<lparr>entityName = ''userName_patternAny'', entityValue = EVArray [EVString ''bob'']\<rparr>]"
  let ?turn = "turnSignal ''WhoAreYou'' ?es"
  have h1: "intent ?turn = Some (WhoAreYouDialog_Name contoso_names)"
    by (simp add: turnSignal_def contoso_names_def)
  have h2: "WhoAreYouDialog_Name contoso_names \<noteq> QnADialog_Name contoso_names"
    and h3: "WhoAreYouDialog_Name contoso_names \<noteq> ChitChatDialog_Name contoso_names"
    and h4: "WhoAreYouDialog_Name contoso_names \<noteq> HelpDialog_Name contoso_names"
    and h5: "WhoAreYouDialog_Name contoso_names \<noteq> CancelDialog_Name contoso_names"
    and h6: "WhoAreYouDialog_Name contoso_names \<noteq> WhatCanYouDoDialog_Name contoso_names"
    by (simp_all add: contoso_names_def)
  have h7: "entities ?turn = Some ?es"
    by (simp add: turnSignal_def)
  have h8: "find (\<lambda>item. entityName item = ''userName_patternAny'') ?es = Some ?e"
    by simp
  have h9: "entityValue ?e = EVArray (EVString ''alice'' # [])"
    by simp
  have h10: "toUpperCase ?env ''a'' = ''A''"
    by (simp add: dialogContext_def asciiUpperCase_def)
  have h11: "continue_impl ?env (turnStart []) = Inr (DialogTurnResult status_empty None, turnStart [])"
    by (simp add: dialogContext_def activeDialog_def turnStart_def)
  have h12: "\<not> responded (turnStart [])"
    by (simp add: turnStart_def)
  show ?thesis
    using reintroduction_sets_name [OF h1 h2 h3 h4 h5 h6 h7 h8 h9 h10 h11 h12, of 0]
    by (simp add: turnStart_def)
qed

text \<open>
  C7 as stated fails in two ways. While another dialog is active and answers the turn, the
  dispatcher never reaches the identification short cut: the profile stays unset and nobody
  is greeted. And when the entity's value is the string \<open>alice\<close> itself (as a card delivers
  values), element 0 is its first character: the name stored is \<open>A\<close>.
\<close>

theorem reintroduction_counterexample:
  "mainDispatch 1 (dialogContext (replying (DialogTurnResult status_waiting None)) rejecting) contoso_names
     (turnSignal ''WhoAreYou'' [\<lparr>entityName = ''userName_patternAny'', entityValue = EVArray [EVString ''alice'']\<rparr>])
     (turnStart [''FindCafeLocations''])
   = Some (Inr (DialogTurnResult status_waiting None,
        \<lparr>stack = [''FindCafeLocations''], activeDialogProperty = Some ''FindCafeLocations'', userProfile = None,
         activity_text = ''hi'', responded = True, sent = [Message ''...''], calls = [CallContinue]\<rparr>))
   \<and> mainDispatch 1 (dialogContext (replying (DialogTurnResult status_waiting None)) rejecting) contoso_names
     (turnSignal ''WhoAreYou'' [\<lparr>entityName = ''userName_patternAny'', entityValue = EVString ''alice''\<rparr>])
     (turnStart [])
   = Some (Inr (ResourceResponse,
        \<lparr>stack = [], activeDialogProperty = None, userProfile = Some \<lparr>userName = ''A''\<rparr>,
         activity_text = ''hi'', responded = True,
         sent = [Message ''Hello A, Nice to meet you again! I'm the Contoso Cafe Bot.''],
         calls = [CallContinue]\<rparr>))"
  by (simp add: mainDispatch_def examineResult_def isRequestedOperationPossible2_def contoso_names_def
      turnSignal_def dc_continue_def logged_def dialogContext_def replying_def asciiUpperCase_def
      beginWhoAreYouDialog_def entitiesNamed_def USER_NAME_ENTITY_def index0_def capitalize_def
      userProfileProperty_def greeting_def activeDialog_def turnStart_def sendActivity_def)

section \<open>The "what can you do" card\<close>

lemma beginChildDialog2_WhatCanYouDo:
  assumes "intent onTurnProperty = Some (WhatCanYouDoDialog_Name nm)"
    and "WhatCanYouDoDialog_Name nm \<noteq> QnADialog_Name nm"
    and "WhatCanYouDoDialog_Name nm \<noteq> ChitChatDialog_Name nm"
    and "WhatCanYouDoDialog_Name nm \<noteq> HelpDialog_Name nm"
    and "WhatCanYouDoDialog_Name nm \<noteq> CancelDialog_Name nm"
    and "WhatCanYouDoDialog_Name nm \<noteq> WhoAreYouDialog_Name nm"
    and "WhatCanYouDoDialog_Name nm \<noteq> FindCafeLocationsDialog_Name nm"
  shows "beginChildDialog2 (Suc n) env nm onTurnProperty payload s
           = beginWhatCanYouDoDialog n env nm onTurnProperty s"
  using assms by simp

lemma beginWhatCanYouDoDialog_malformed:
  assumes "entities onTurnProperty = Some es"
    and "find (\<lambda>item. entityName item = ''query'') es = Some e"
    and "JSON_parse env (entityValue e) = None"
  shows "beginWhatCanYouDoDialog n env nm onTurnProperty s
           = Some (Inr (ResourceResponse,
               sendActivity
                 (Message ''Try and choose a query from the card before you click the 'Let's talk!' button.'') s))"
proof -
  from find_heads_filter [OF assms(2)] obtain ys
    where "filter (\<lambda>item. entityName item = ''query'') es = e # ys"
    by blast
  with assms(1) have "entitiesNamed QUERY_PROPERTY onTurnProperty = e # ys"
    by (simp add: entitiesNamed_def QUERY_PROPERTY_def)
  with assms(3) show ?thesis
    by simp
qed

text \<open>
  C8, as the code has it. A turn with the intent of the "what can you do" card, among whose
  entities the first one named \<open>query\<close> holds a string that \<open>JSON.parse\<close> rejects, which
  the evaluator permits and to which no continued dialog has responded: the dispatcher
  returns normally, having sent the corrective message; it does not dispatch again (the log
  grows by the call of \<open>continue\<close> only), and but for the message sent the state is the one
  the call of \<open>continue\<close> left: stack, active dialog property and user profile are
  untouched. The card dialog's name differs from the names tested before it.
\<close>

theorem malformed_card_payload:
  assumes "intent onTurnProperty = Some (WhatCanYouDoDialog_Name nm)"
    and "WhatCanYouDoDialog_Name nm \<noteq> QnADialog_Name nm"
    and "WhatCanYouDoDialog_Name nm \<noteq> ChitChatDialog_Name nm"
    and "WhatCanYouDoDialog_Name nm \<noteq> HelpDialog_Name nm"
    and "WhatCanYouDoDialog_Name nm \<noteq> CancelDialog_Name nm"
    and "WhatCanYouDoDialog_Name nm \<noteq> WhoAreYouDialog_Name nm"
    and "WhatCanYouDoDialog_Name nm \<noteq> FindCafeLocationsDialog_Name nm"
    and "entities onTurnProperty = Some es"
    and "find (\<lambda>item. entityName item = ''query'') es = Some e"
    and "entityValue e = EVString q"
    and "JSON_parse env (EVString q) = None"
    and "allowed (isRequestedOperationPossible2 nm s (intent onTurnProperty))"
    and "continue_impl env s = Inr (r0, s0)"
    and "\<not> responded s0"
  shows "mainDispatch (Suc n) env nm onTurnProperty s
           = Some (Inr (ResourceResponse,
               s0\<lparr>calls := calls s @ [CallContinue],
                  sent := sent s0
                    @ [Message ''Try and choose a query from the card before you click the 'Let's talk!' button.''],
                  responded := True\<rparr>))"
proof -
  have rejected: "JSON_parse env (entityValue e) = None"
    using assms(10,11) by simp
  have begun: "beginChildDialog2 (Suc n) env nm onTurnProperty None (s0\<lparr>calls := calls s @ [CallContinue]\<rparr>)
                 = Some (Inr (ResourceResponse,
                      sendActivity
                        (Message ''Try and choose a query from the card before you click the 'Let's talk!' button.'')
                        (s0\<lparr>calls := calls s @ [CallContinue]\<rparr>)))"
    unfolding beginChildDialog2_WhatCanYouDo [OF assms(1-7)]
    by (rule beginWhatCanYouDoDialog_malformed [OF assms(8,9) rejected])
  show ?thesis
    unfolding mainDispatch_def
    using assms(12,14) dc_continue_returns [OF assms(13)] begun
    by (simp add: examineResult_def sendActivity_def)
qed

theorem malformed_card_payload_witness:
  "mainDispatch 1 (dialogContext (replying (DialogTurnResult status_waiting None)) rejecting) contoso_names
     (turnSignal ''WhatCanYouDo''
        [\<lparr>entityName = ''userName_patternAny'', entityValue = EVArray [EVString ''alice'']\<rparr>,
         \<lparr>entityName = ''query'', entityValue = EVString ''{text:''\<rparr>])
     (turnStart [])
   = Some (Inr (ResourceResponse,
        \<lparr>stack = [], activeDialogProperty = None, userProfile = None, activity_text = ''hi'', responded = True,
         sent = [Message ''Try and choose a query from the card before you click the 'Let's talk!' button.''],
         calls = [CallContinue]\<rparr>))"
proof -
  let ?env = "dialogContext (replying (DialogTurnResult status_waiting None)) rejecting"
  let ?e = "\<lparr>entityName = ''query'', entityValue = EVString ''{text:''\<rparr>"
  let ?es = "[\<lparr>entityName = ''userName_patternAny'', entityValue = EVArray [EVString ''alice'']\<rparr>, ?e]"
  let ?turn = "turnSignal ''WhatCanYouDo'' ?es"
  have h1: "intent ?turn = Some (WhatCanYouDoDialog_Name contoso_names)"
    by (simp add: turnSignal_def contoso_names_def)
  have h2: "WhatCanYouDoDialog_Name contoso_names \<noteq> QnADialog_Name contoso_names"
    and h3: "WhatCanYouDoDialog_Name contoso_names \<noteq> ChitChatDialog_Name contoso_names"
    and h4: "WhatCanYouDoDialog_Name contoso_names \<noteq> HelpDialog_Name contoso_names"
    and h5: "WhatCanYouDoDialog_Name contoso_names \<noteq> CancelDialog_Name contoso_names"
    and h6: "WhatCanYouDoDialog_Name contoso_names \<noteq> WhoAreYouDialog_Name contoso_names"
    and h7: "WhatCanYouDoDialog_Name contoso_names \<noteq> FindCafeLocationsDialog_Name contoso_names"
    by (simp_all add: contoso_names_def)
  have h8: "entities ?turn = Some ?es"
    by (simp add: turnSignal_def)
  have h9: "find (\<lambda>item. entityName item = ''query'') ?es = Some ?e"
    by simp
  have h10: "entityValue ?e = EVString ''{text:''"
    by simp
  have h11: "JSON_parse ?env (EVString ''{text:'') = None"
    by (simp add: dialogContext_def rejecting_def)
  have h12: "allowed (isRequestedOperationPossible2 contoso_names (turnStart []) (intent ?turn))"
    by (simp add: isRequestedOperationPossible2_def contoso_names_def turnSignal_def activeDialog_def turnStart_def)
  have h13: "continue_impl ?env (turnStart []) = Inr (DialogTurnResult status_empty None, turnStart [])"
    by (simp add: dialogContext_def activeDialog_def turnStart_def)
  have h14: "\<not> responded (turnStart [])"
    by (simp add: turnStart_def)
  show ?thesis
    using malformed_card_payload [OF h1 h2 h3 h4 h5 h6 h7 h8 h9 h10 h11 h12 h13 h14, of 0]
    by (simp add: turnStart_def)
qed

text \<open>
  C8 as stated fails in two ways. While the identification dialog is active the card's
  intent is denied: the message sent is the denial, not the corrective one, and
  \<open>dc.end()\<close> takes the identification dialog off the stack. And while another dialog is
  active and answers the turn, the card payload is never read: no corrective message is
  sent.
\<close>

theorem malformed_card_payload_counterexample:
  "mainDispatch 1 (dialogContext (replying (DialogTurnResult status_waiting None)) rejecting) contoso_names
     (turnSignal ''WhatCanYouDo'' [\<lparr>entityName = ''query'', entityValue = EVString ''{text:''\<rparr>])
     (turnStart [''WhoAreYou''])
   = Some (Inr (DialogTurnResult status_complete None,
        \<lparr>stack = [], activeDialogProperty = Some ''WhoAreYou'', userProfile = None, activity_text = ''hi'',
         responded = True,
         sent = [Message ''Sorry! I'm unable to process that. You can say 'cancel' to cancel this conversation..''],
         calls = [CallEnd]\<rparr>))
   \<and> mainDispatch 1 (dialogContext (replying (DialogTurnResult status_waiting None)) rejecting) contoso_names
     (turnSignal ''WhatCanYouDo'' [\<lparr>entityName = ''query'', entityValue = EVString ''{text:''\<rparr>])
     (turnStart [''FindCafeLocations''])
   = Some (Inr (DialogTurnResult status_waiting None,
        \<lparr>stack = [''FindCafeLocations''], activeDialogProperty = Some ''FindCafeLocations'', userProfile = None,
         activity_text = ''hi'', responded = True, sent = [Message ''...''], calls = [CallContinue]\<rparr>))"
  by (simp add: mainDispatch_def examineResult_def isRequestedOperationPossible2_def contoso_names_def
      turnSignal_def dc_continue_def dc_end_def logged_def dialogContext_def replying_def
      activeDialog_def turnStart_def sendActivity_def)

end
